theory Spec2Isabelle
  imports Complex_Main
begin

section \<open>JavaScript numbers\<close>

text \<open>
  The engine computes on JavaScript numbers.  A finite double is idealised as the real
  number it denotes (no rounding, no overflow, no signed zero); the three non-finite
  values are kept apart, because the forecast code branches on comparisons that are
  false on \<open>NaN\<close> and because \<open>Math.max\<close> and \<open>Math.min\<close> propagate it.
\<close>

datatype number = NaN | Infinity | NegInfinity | Fin real

fun num_neg :: "number \<Rightarrow> number" where
  "num_neg NaN = NaN"
| "num_neg Infinity = NegInfinity"
| "num_neg NegInfinity = Infinity"
| "num_neg (Fin x) = Fin (- x)"

fun num_add :: "number \<Rightarrow> number \<Rightarrow> number" where
  "num_add NaN b = NaN"
| "num_add a NaN = NaN"
| "num_add Infinity NegInfinity = NaN"
| "num_add NegInfinity Infinity = NaN"
| "num_add Infinity b = Infinity"
| "num_add a Infinity = Infinity"
| "num_add NegInfinity b = NegInfinity"
| "num_add a NegInfinity = NegInfinity"
| "num_add (Fin x) (Fin y) = Fin (x + y)"

fun num_mul :: "number \<Rightarrow> number \<Rightarrow> number" where
  "num_mul NaN b = NaN"
| "num_mul a NaN = NaN"
| "num_mul (Fin x) (Fin y) = Fin (x * y)"
| "num_mul (Fin x) Infinity = (if x = 0 then NaN else if 0 < x then Infinity else NegInfinity)"
| "num_mul (Fin x) NegInfinity = (if x = 0 then NaN else if 0 < x then NegInfinity else Infinity)"
| "num_mul Infinity (Fin y) = (if y = 0 then NaN else if 0 < y then Infinity else NegInfinity)"
| "num_mul NegInfinity (Fin y) = (if y = 0 then NaN else if 0 < y then NegInfinity else Infinity)"
| "num_mul Infinity Infinity = Infinity"
| "num_mul Infinity NegInfinity = NegInfinity"
| "num_mul NegInfinity Infinity = NegInfinity"
| "num_mul NegInfinity NegInfinity = Infinity"

text \<open>Division; a zero divisor is read as \<open>+0\<close>.\<close>

fun num_div :: "number \<Rightarrow> number \<Rightarrow> number" where
  "num_div NaN b = NaN"
| "num_div a NaN = NaN"
| "num_div (Fin x) (Fin y) =
     (if y = 0 then (if x = 0 then NaN else if 0 < x then Infinity else NegInfinity)
      else Fin (x / y))"
| "num_div (Fin x) Infinity = Fin 0"
| "num_div (Fin x) NegInfinity = Fin 0"
| "num_div Infinity (Fin y) = (if 0 \<le> y then Infinity else NegInfinity)"
| "num_div NegInfinity (Fin y) = (if 0 \<le> y then NegInfinity else Infinity)"
| "num_div Infinity b = NaN"
| "num_div NegInfinity b = NaN"

text \<open>The comparisons \<open><\<close> and \<open><=\<close>: false as soon as one side is \<open>NaN\<close>.\<close>

fun num_lt :: "number \<Rightarrow> number \<Rightarrow> bool" where
  "num_lt NaN b = False"
| "num_lt a NaN = False"
| "num_lt (Fin x) (Fin y) = (x < y)"
| "num_lt a NegInfinity = False"
| "num_lt Infinity b = False"
| "num_lt NegInfinity b = True"
| "num_lt a Infinity = True"

fun num_le :: "number \<Rightarrow> number \<Rightarrow> bool" where
  "num_le NaN b = False"
| "num_le a NaN = False"
| "num_le (Fin x) (Fin y) = (x \<le> y)"
| "num_le NegInfinity b = True"
| "num_le a Infinity = True"
| "num_le a NegInfinity = False"
| "num_le Infinity b = False"

instantiation number :: "{zero, one, plus, minus, uminus, times, inverse, ord}"
begin

definition zero_number :: number where "zero_number = Fin 0"
definition one_number :: number where "one_number = Fin 1"
definition plus_number :: "number \<Rightarrow> number \<Rightarrow> number" where "plus_number a b = num_add a b"
definition uminus_number :: "number \<Rightarrow> number" where "uminus_number a = num_neg a"
definition minus_number :: "number \<Rightarrow> number \<Rightarrow> number" where
  "minus_number a b = num_add a (num_neg b)"
definition times_number :: "number \<Rightarrow> number \<Rightarrow> number" where "times_number a b = num_mul a b"
definition divide_number :: "number \<Rightarrow> number \<Rightarrow> number" where "divide_number a b = num_div a b"
definition inverse_number :: "number \<Rightarrow> number" where "inverse_number a = num_div (Fin 1) a"
definition less_number :: "number \<Rightarrow> number \<Rightarrow> bool" where "less_number a b = num_lt a b"
definition less_eq_number :: "number \<Rightarrow> number \<Rightarrow> bool" where "less_eq_number a b = num_le a b"

instance ..

end

instance number :: numeral
proof
  fix a b c :: number
  show "a + b + c = a + (b + c)"
    by (cases a; cases b; cases c) (simp_all add: plus_number_def)
qed

instance number :: power ..

text \<open>Strict equality \<open>===\<close> on numbers (\<open>NaN\<close> differs from itself).\<close>

definition strict_eq :: "number \<Rightarrow> number \<Rightarrow> bool" where
  "strict_eq a b = (a \<noteq> NaN \<and> b \<noteq> NaN \<and> a = b)"

text \<open>\<open>Number.isFinite\<close>: neither \<open>NaN\<close> nor an infinity.\<close>

fun isFinite :: "number \<Rightarrow> bool" where
  "isFinite (Fin x) = True"
| "isFinite a = False"

text \<open>The library functions of \<open>Math\<close> that the engine calls.\<close>

definition Math_PI :: number where
  "Math_PI = Fin pi"

fun Math_max :: "number \<Rightarrow> number \<Rightarrow> number" where
  "Math_max NaN b = NaN"
| "Math_max a NaN = NaN"
| "Math_max Infinity b = Infinity"
| "Math_max a Infinity = Infinity"
| "Math_max NegInfinity b = b"
| "Math_max a NegInfinity = a"
| "Math_max (Fin x) (Fin y) = Fin (max x y)"

fun Math_min :: "number \<Rightarrow> number \<Rightarrow> number" where
  "Math_min NaN b = NaN"
| "Math_min a NaN = NaN"
| "Math_min NegInfinity b = NegInfinity"
| "Math_min a NegInfinity = NegInfinity"
| "Math_min Infinity b = b"
| "Math_min a Infinity = a"
| "Math_min (Fin x) (Fin y) = Fin (min x y)"

fun Math_abs :: "number \<Rightarrow> number" where
  "Math_abs NaN = NaN"
| "Math_abs Infinity = Infinity"
| "Math_abs NegInfinity = Infinity"
| "Math_abs (Fin x) = Fin \<bar>x\<bar>"

fun Math_floor :: "number \<Rightarrow> number" where
  "Math_floor (Fin x) = Fin (of_int \<lfloor>x\<rfloor>)"
| "Math_floor a = a"

fun Math_sin :: "number \<Rightarrow> number" where
  "Math_sin (Fin x) = Fin (sin x)"
| "Math_sin a = NaN"

fun Math_cos :: "number \<Rightarrow> number" where
  "Math_cos (Fin x) = Fin (cos x)"
| "Math_cos a = NaN"

fun Math_asin :: "number \<Rightarrow> number" where
  "Math_asin (Fin x) = (if - 1 \<le> x \<and> x \<le> 1 then Fin (arcsin x) else NaN)"
| "Math_asin a = NaN"

fun Math_acos :: "number \<Rightarrow> number" where
  "Math_acos (Fin x) = (if - 1 \<le> x \<and> x \<le> 1 then Fin (arccos x) else NaN)"
| "Math_acos a = NaN"

fun Math_exp :: "number \<Rightarrow> number" where
  "Math_exp NaN = NaN"
| "Math_exp Infinity = Infinity"
| "Math_exp NegInfinity = Fin 0"
| "Math_exp (Fin x) = Fin (exp x)"

fun Math_sqrt :: "number \<Rightarrow> number" where
  "Math_sqrt NaN = NaN"
| "Math_sqrt Infinity = Infinity"
| "Math_sqrt NegInfinity = NaN"
| "Math_sqrt (Fin x) = (if x < 0 then NaN else Fin (sqrt x))"

definition is_integer :: "real \<Rightarrow> bool" where
  "is_integer y = (y = of_int \<lfloor>y\<rfloor>)"

text \<open>\<open>Math.pow\<close>, by the cases of the language standard's \<open>Number::exponentiate\<close>.\<close>

fun Math_pow :: "number \<Rightarrow> number \<Rightarrow> number" where
  "Math_pow b NaN = NaN"
| "Math_pow b (Fin y) =
     (if y = 0 then Fin 1
      else case b of
        NaN \<Rightarrow> NaN
      | Infinity \<Rightarrow> (if 0 < y then Infinity else Fin 0)
      | NegInfinity \<Rightarrow>
          (if 0 < y then (if is_integer y \<and> odd \<lfloor>y\<rfloor> then NegInfinity else Infinity)
           else Fin 0)
      | Fin x \<Rightarrow>
          (if x = 0 then (if 0 < y then Fin 0 else Infinity)
           else if 0 < x then Fin (x powr y)
           else if is_integer y then Fin (x powi \<lfloor>y\<rfloor>)
           else NaN))"
| "Math_pow b Infinity =
     (case b of
        NaN \<Rightarrow> NaN
      | Infinity \<Rightarrow> Infinity
      | NegInfinity \<Rightarrow> Infinity
      | Fin x \<Rightarrow> (if 1 < \<bar>x\<bar> then Infinity else if \<bar>x\<bar> = 1 then NaN else Fin 0))"
| "Math_pow b NegInfinity =
     (case b of
        NaN \<Rightarrow> NaN
      | Infinity \<Rightarrow> Fin 0
      | NegInfinity \<Rightarrow> Fin 0
      | Fin x \<Rightarrow> (if 1 < \<bar>x\<bar> then Fin 0 else if \<bar>x\<bar> = 1 then NaN else Infinity))"

text \<open>
  \<open>Number(x.toFixed(f))\<close>: the decimal with \<open>f\<close> fraction digits nearest to \<open>x\<close>, the
  larger in magnitude at a tie; values that are not finite, or of magnitude \<open>10^21\<close> and
  above, are printed by \<open>ToString\<close> and read back unchanged.
\<close>

fun toFixed_Number :: "nat \<Rightarrow> number \<Rightarrow> number" where
  "toFixed_Number f (Fin x) =
     (if 10 ^ 21 \<le> \<bar>x\<bar> then Fin x
      else Fin (sgn x * of_int \<lfloor>\<bar>x\<bar> * 10 ^ f + 1 / 2\<rfloor> / 10 ^ f))"
| "toFixed_Number f a = a"

text \<open>
  An array read \<open>xs[i]\<close> is \<open>undefined\<close> out of range, and \<open>v || d\<close> takes the default
  \<open>d\<close> when \<open>v\<close> is falsy: \<open>undefined\<close>, \<open>NaN\<close> or zero.
\<close>

definition nth_opt :: "'a list \<Rightarrow> nat \<Rightarrow> 'a option" where
  "nth_opt xs i = (if i < length xs then Some (xs ! i) else None)"

fun or_default :: "number option \<Rightarrow> number \<Rightarrow> number" where
  "or_default None d = d"
| "or_default (Some NaN) d = d"
| "or_default (Some (Fin x)) d = (if x = 0 then d else Fin x)"
| "or_default (Some v) d = v"

definition array_length :: "'a list \<Rightarrow> number" where
  "array_length xs = Fin (real (length xs))"

section \<open>Coordinate validation of the input component\<close>



section \<open>Forecast engine\<close>

text \<open>
  The solar forecast service: solar position, clear-sky model, cloud and aerosol factors,
  decomposition, confidence and the orchestrator \<open>generateSolarForecast\<close>.
\<close>

text \<open>
  What the engine reads of a JavaScript \<open>Date\<close>: \<open>yearStart\<close> stands for
  \<open>new Date(date.getFullYear(), 0, 0).getTime()\<close>.  All four are \<open>NaN\<close> on an invalid date.
\<close>

record Date =
  getTime :: number
  yearStart :: number
  getUTCHours :: number
  getUTCMinutes :: number

record Irradiance =
  dni :: number
  dhi :: number

record WeatherForecastData =
  time :: "string list"
  temperature_2m :: "number list"
  cloud_cover :: "number list"
  shortwave_radiation :: "number list"

text \<open>\<open>calculateCloudImpact\<close>: the attenuation factor for a cloud cover and a temperature.\<close>

definition calculateCloudImpact :: "number \<Rightarrow> number \<Rightarrow> number" where
  "calculateCloudImpact cloudCover temperature =
     (if cloudCover < 10 then 0.95
      else if cloudCover > 90 then 0.15
      else
        let cloudOpacity = Math_pow (cloudCover / 100) 1.3;
            tempFactor = Math_max 0.8 (Math_min 1.0 ((temperature + 5) / 45));
            reduction = 1 - cloudOpacity * tempFactor * 0.85
        in Math_max 0.1 reduction)"

definition estimateAerosolFactor :: "number \<Rightarrow> number" where
  "estimateAerosolFactor elevation =
     (if elevation < 0 then 0
      else if elevation < 10 then 0.85
      else if elevation < 20 then 0.90
      else if elevation < 30 then 0.93
      else 0.95)"

definition calculateClearSkyIrradiance :: "number \<Rightarrow> number \<Rightarrow> number" where
  "calculateClearSkyIrradiance elevation zenithAngle =
     (if elevation \<le> 0 then 0
      else
        let zenithRad = (zenithAngle * Math_PI) / 180;
            airmass =
              1 / (Math_cos zenithRad + 0.50572 * Math_pow (96.07995 - zenithAngle) (- 1.6364));
            c0 = 910.6;
            c1 = 0.6797;
            c2 = - 0.00639;
            clearSkyGHI = c0 * Math_exp (c1 - c2 * airmass) * Math_max 0 (Math_cos zenithRad)
        in Math_max 0 clearSkyGHI)"

definition decomposeIrradiance :: "number \<Rightarrow> number \<Rightarrow> number \<Rightarrow> Irradiance" where
  "decomposeIrradiance ghi elevation cloudCover =
     (if elevation \<le> 0 then \<lparr>dni = 0, dhi = 0\<rparr>
      else
        let elevation_rad = (elevation * Math_PI) / 180;
            clearSkyGHI = calculateClearSkyIrradiance elevation (90 - elevation);
            clearness = (if clearSkyGHI > 0 then Math_min 1 (ghi / clearSkyGHI) else 0);
            dhi =
              (if clearness \<le> 0.3 then
                 ghi * (1.020 - 0.254 * clearness + 0.0123 * Math_sin elevation_rad)
               else if clearness \<le> 0.78 then
                 ghi * (0.972 - 0.306 * clearness + 0.0311 * Math_sin elevation_rad)
               else ghi * (0.29 * clearness + 0.0049 * Math_sin elevation_rad));
            dni = Math_max 0 ((ghi - dhi) / Math_max 0.01 (Math_sin elevation_rad))
        in \<lparr>dni = Math_max 0 dni, dhi = Math_max 0 dhi\<rparr>)"

definition predictConfidence ::
  "number \<Rightarrow> number \<Rightarrow> number \<Rightarrow> nat \<Rightarrow> WeatherForecastData \<Rightarrow> number" where
  "predictConfidence cloudCover elevation temperature index weatherData =
     (if elevation < 0 then 0.95
      else
        let cloudVariance =
              (if index > 0 \<and> int index < int (length (cloud_cover weatherData)) - 1 then
                 let prevCloud = cloud_cover weatherData ! (index - 1);
                     nextCloud = cloud_cover weatherData ! (index + 1)
                 in Math_abs (prevCloud - nextCloud) / 100
               else 0);
            cloudConfidence = 1 - cloudVariance * 0.4;
            elevationConfidence = Math_min 1 (elevation / 80);
            tempConfidence = (if temperature < - 10 \<or> temperature > 40 then 0.7 else 0.9)
        in Math_max 0.1 (cloudConfidence * elevationConfidence * tempConfidence))"

record SolarPosition =
  zenithAngle :: number
  elevation :: number
  azimuth :: number

text \<open>\<open>calculateSolarPosition\<close>: Spencer's equations, angles returned in degrees.\<close>

definition calculateSolarPosition :: "number \<Rightarrow> number \<Rightarrow> Date \<Rightarrow> SolarPosition" where
  "calculateSolarPosition latitude longitude date =
     (let dayOfYear = Math_floor ((getTime date - yearStart date) / 86400000);
          gamma = (2 * Math_PI * (dayOfYear - 1)) / 365;
          declination =
            0.006918 -
            0.399912 * Math_cos gamma +
            0.070257 * Math_sin gamma -
            0.006758 * Math_cos (2 * gamma) +
            0.000907 * Math_sin (2 * gamma) -
            0.00205 * Math_cos (3 * gamma) +
            0.00029 * Math_sin (3 * gamma);
          eot =
            229.18 *
            (0.017645 * Math_sin (2 * gamma) -
             0.033827 * Math_cos gamma -
             0.00969 * Math_sin gamma -
             0.00569 * Math_cos (2 * gamma));
          utcMinutes = getUTCHours date * 60 + getUTCMinutes date;
          localMinutes = utcMinutes;
          solarMinutes = localMinutes + eot + longitude * 4;
          solarHours = solarMinutes / 60;
          hourAngle = ((solarHours - 12) * 15 * Math_PI) / 180;
          latRad = (latitude * Math_PI) / 180;
          sinElevation =
            Math_sin latRad * Math_sin declination +
            Math_cos latRad * Math_cos declination * Math_cos hourAngle;
          elevation = Math_asin (Math_max (- 1) (Math_min 1 sinElevation));
          zenithAngle = (Math_PI / 2) - elevation;
          azimuth =
            (if elevation > 0 then
               let cosAzimuth =
                     (Math_sin declination - Math_sin elevation * Math_sin latRad) /
                     (Math_cos elevation * Math_cos latRad);
                   azimuth = Math_acos (Math_max (- 1) (Math_min 1 cosAzimuth))
               in if Math_sin hourAngle > 0 then 2 * Math_PI - azimuth else azimuth
             else 0)
      in \<lparr>zenithAngle = zenithAngle * (180 / Math_PI),
          elevation = elevation * (180 / Math_PI),
          azimuth = azimuth * (180 / Math_PI)\<rparr>)"

record SolarDataPoint =
  timestamp :: string
  irradiance :: number

record ForecastPoint =
  time :: string
  predictedIrradiance :: number
  confidence :: number

record LocationData =
  latitude :: string
  longitude :: string

text \<open>
  The callback that \<open>generateSolarForecast\<close> maps over \<open>weatherForecast.time\<close>, one call
  for each element \<open>time\<close> at position \<open>index\<close>.  \<open>newDate\<close> is the \<open>Date\<close> constructor
  on a timestamp string.
\<close>

definition forecastCallback ::
  "(string \<Rightarrow> Date) \<Rightarrow> number \<Rightarrow> number \<Rightarrow> number \<Rightarrow> number \<Rightarrow> WeatherForecastData \<Rightarrow>
   string \<Rightarrow> nat \<Rightarrow> ForecastPoint" where
  "forecastCallback newDate lat lon systemEfficiency temperatureCoefficient weatherForecast =
     (\<lambda>time index.
      let date = newDate time;
          temperature = or_default (nth_opt (temperature_2m weatherForecast) index) 25;
          cloudCover = or_default (nth_opt (cloud_cover weatherForecast) index) 0;
          baseGHI = or_default (nth_opt (shortwave_radiation weatherForecast) index) 0;
          solarPos = calculateSolarPosition lat lon date
      in if elevation solarPos < 0 then
           \<lparr>ForecastPoint.time = time, predictedIrradiance = 0, confidence = 0.95\<rparr>
         else
           let clearSkyGHI =
                 calculateClearSkyIrradiance (elevation solarPos) (zenithAngle solarPos);
               cloudImpact = calculateCloudImpact cloudCover temperature;
               aerosolFactor = estimateAerosolFactor (elevation solarPos);
               predictedGHI = Math_max 0 (baseGHI * cloudImpact * aerosolFactor);
               tempDeviation = Math_max 0 (temperature - 25);
               tempLossFactor = 1 + temperatureCoefficient * tempDeviation;
               predictedIrradiance =
                 Math_max 0 (predictedGHI * systemEfficiency * tempLossFactor);
               components = decomposeIrradiance predictedGHI (elevation solarPos) cloudCover;
               confidence =
                 predictConfidence cloudCover (elevation solarPos) temperature index
                   weatherForecast
           in \<lparr>ForecastPoint.time = time, predictedIrradiance = predictedIrradiance,
                confidence = confidence\<rparr>)"

text \<open>
  \<open>generateSolarForecast\<close>.  The coordinates of a location are strings by their type,
  so each is converted by \<open>parseFloat\<close>, the global function of that name.  The body of
  the \<open>try\<close> block raises nothing on arguments of the declared types, so the promise is
  never rejected by the \<open>catch\<close> clause: the result is always \<open>Inr\<close>.
\<close>

datatype error = ForecastingError

definition generateSolarForecast ::
  "(string \<Rightarrow> number) \<Rightarrow> (string \<Rightarrow> Date) \<Rightarrow> LocationData \<Rightarrow> SolarDataPoint list \<Rightarrow>
   WeatherForecastData \<Rightarrow> error + ForecastPoint list" where
  "generateSolarForecast parseFloat newDate location historicalData weatherForecast =
     (let lat = parseFloat (latitude location);
          lon = parseFloat (longitude location);
          systemEfficiency = 0.85;
          temperatureCoefficient = - 0.004;
          forecast =
            map (\<lambda>(time, index).
                  forecastCallback newDate lat lon systemEfficiency temperatureCoefficient
                    weatherForecast time index)
              (zip (WeatherForecastData.time weatherForecast)
                 [0 ..< length (WeatherForecastData.time weatherForecast)])
      in Inr forecast)"

section \<open>Weather analysis\<close>

text \<open>
  The weather service: \<open>analyzeWeatherTrends\<close> and \<open>calculateForecastQuality\<close>, which
  run once on each fetched series.
\<close>

record EnhancedWeatherForecast = WeatherForecastData +
  humidity :: "number list option"
  windSpeed :: "number list option"
  windDirection :: "number list option"
  pressure :: "number list option"
  precipitation :: "number list option"
  uvIndex :: "number list option"
  visibility :: "number list option"
  dewPoint :: "number list option"
  apparentTemperature :: "number list option"

record WeatherTrends =
  tempTrend :: number
  cloudCoverTrend :: number
  windSpeedTrend :: number
  pressureTrend :: number
  humidityTrend :: number

text \<open>\<open>xs || []\<close> on an optional array.\<close>

fun or_empty :: "'a list option \<Rightarrow> 'a list" where
  "or_empty None = []"
| "or_empty (Some xs) = xs"

text \<open>
  The closure \<open>calculateTrend\<close> of \<open>analyzeWeatherTrends\<close>, with the captured \<open>n\<close> as its
  first argument.  The \<open>forEach\<close> loop updates the pair \<open>(numerator, denominator)\<close>.
\<close>

definition calculateTrend :: "nat \<Rightarrow> number list \<Rightarrow> number" where
  "calculateTrend n data =
     (let slice = take n data
      in if length slice < 2 then 0
         else
           let xMean = (array_length slice - 1) / 2;
               yMean = foldl (\<lambda>a b. a + b) 0 slice / array_length slice;
               (numerator, denominator) =
                 foldl (\<lambda>(numerator, denominator) (y, x).
                          (numerator + (Fin (real x) - xMean) * (y - yMean),
                           denominator + Math_pow (Fin (real x) - xMean) 2))
                   (0, 0) (zip slice [0 ..< length slice])
           in if \<not> strict_eq denominator 0 then numerator / denominator else 0)"

definition analyzeWeatherTrends :: "'a EnhancedWeatherForecast_scheme \<Rightarrow> WeatherTrends" where
  "analyzeWeatherTrends forecastData =
     (let n = min 24 (length (temperature_2m forecastData))
      in if n < 2 then
           \<lparr>tempTrend = 0, cloudCoverTrend = 0, windSpeedTrend = 0, pressureTrend = 0,
            humidityTrend = 0\<rparr>
         else
           \<lparr>tempTrend = toFixed_Number 3 (calculateTrend n (temperature_2m forecastData)),
            cloudCoverTrend = toFixed_Number 2 (calculateTrend n (cloud_cover forecastData)),
            windSpeedTrend =
              toFixed_Number 3 (calculateTrend n (or_empty (windSpeed forecastData))),
            pressureTrend =
              toFixed_Number 2 (calculateTrend n (or_empty (pressure forecastData))),
            humidityTrend =
              toFixed_Number 2 (calculateTrend n (or_empty (humidity forecastData)))\<rparr>)"

definition calculateForecastQuality :: "'a EnhancedWeatherForecast_scheme \<Rightarrow> number" where
  "calculateForecastQuality forecastData =
     (if length (temperature_2m forecastData) = 0 then 0.5
      else
        let n = min 24 (length (temperature_2m forecastData));
            temps = take n (temperature_2m forecastData);
            tempMean = foldl (\<lambda>a b. a + b) 0 temps / array_length temps;
            tempVariance =
              foldl (\<lambda>sum t. sum + Math_pow (t - tempMean) 2) 0 temps / array_length temps;
            tempStability = Math_max 0.3 (1 - Math_sqrt tempVariance / 20);
            clouds = take n (cloud_cover forecastData);
            cloudMean = foldl (\<lambda>a b. a + b) 0 clouds / array_length clouds;
            cloudVariance =
              foldl (\<lambda>sum c. sum + Math_pow (c - cloudMean) 2) 0 clouds / array_length clouds;
            cloudStability = Math_max 0.3 (1 - Math_sqrt cloudVariance / 40);
            precip = (case precipitation forecastData of None \<Rightarrow> [] | Some p \<Rightarrow> take n p);
            hasPrecip = list_ex (\<lambda>p. p > 0) precip;
            precipFactor = (if hasPrecip then 0.85 else 1.0);
            quality = tempStability * 0.4 + cloudStability * 0.4 + precipFactor * 0.2
        in Math_min 0.99 (Math_max 0.1 quality))"

section \<open>Vocabulary of the properties\<close>

text \<open>
  The values that the callback of \<open>generateSolarForecast\<close> binds for the sample at
  position \<open>i\<close>: the elevation of \<open>solarPos\<close>, and \<open>temperature\<close>, \<open>cloudCover\<close> and
  \<open>baseGHI\<close> with their defaults.
\<close>

definition sampleElevation ::
  "(string \<Rightarrow> number) \<Rightarrow> (string \<Rightarrow> Date) \<Rightarrow> LocationData \<Rightarrow> WeatherForecastData \<Rightarrow> nat \<Rightarrow>
   number" where
  "sampleElevation parseFloat newDate location w i =
     elevation (calculateSolarPosition (parseFloat (latitude location))
       (parseFloat (longitude location)) (newDate (WeatherForecastData.time w ! i)))"

definition sampleTemperature :: "WeatherForecastData \<Rightarrow> nat \<Rightarrow> number" where
  "sampleTemperature w i = or_default (nth_opt (temperature_2m w) i) 25"

definition sampleCloudCover :: "WeatherForecastData \<Rightarrow> nat \<Rightarrow> number" where
  "sampleCloudCover w i = or_default (nth_opt (cloud_cover w) i) 0"

definition sampleRadiation :: "WeatherForecastData \<Rightarrow> nat \<Rightarrow> number" where
  "sampleRadiation w i = or_default (nth_opt (shortwave_radiation w) i) 0"



text \<open>
  The clear-sky irradiance in the specification's words: 0 when the elevation is at most
  0, otherwise \<open>910.6 * exp(0.6797 + 0.00639 * airmass) * max(0, cos(zenithRad))\<close> floored
  at 0, with the Kasten-Young air mass.
\<close>

definition clearSkyGHI_spec :: "number \<Rightarrow> number \<Rightarrow> number" where
  "clearSkyGHI_spec elevationDeg zenith =
     (if elevationDeg \<le> 0 then 0
      else
        let zenithRad = zenith * Math_PI / 180;
            airmass = 1 / (Math_cos zenithRad + 0.50572 * Math_pow (96.07995 - zenith) (- 1.6364))
        in Math_max 0
             (910.6 * Math_exp (0.6797 + 0.00639 * airmass) * Math_max 0 (Math_cos zenithRad)))"








section \<open>Example inputs\<close>

text \<open>
  \<open>parseFloat\<close> and the \<open>Date\<close> constructor on the strings of the examples below, in
  an environment whose time zone is UTC.  A string that does not start with a number,
  such as \<open>abc\<close>, is read as \<open>NaN\<close>, and a string other than the one timestamp stands
  for an invalid date.  Noon of 1 January 2024 is day 1 of its year.
\<close>

definition parseFloat_example :: "string \<Rightarrow> number" where
  "parseFloat_example s =
     (if s = ''90'' then 90
      else if s = ''0'' then 0
      else if s = ''2.264126515'' then 2.264126515
      else if s = ''92.264126515'' then 92.264126515
      else if s = ''Infinity'' then Infinity
      else NaN)"

definition newDate_example :: "string \<Rightarrow> Date" where
  "newDate_example s =
     (if s = ''2024-01-01T12:00:00Z'' then
        \<lparr>getTime = 1704110400000, yearStart = 1703980800000, getUTCHours = 12,
         getUTCMinutes = 0\<rparr>
      else \<lparr>getTime = NaN, yearStart = NaN, getUTCHours = NaN, getUTCMinutes = NaN\<rparr>)"

definition noonSeries :: WeatherForecastData where
  "noonSeries =
     \<lparr>WeatherForecastData.time = [''2024-01-01T12:00:00Z''], temperature_2m = [25],
      cloud_cover = [0], shortwave_radiation = [800]\<rparr>"

definition emptySeries :: EnhancedWeatherForecast where
  "emptySeries =
     \<lparr>WeatherForecastData.time = [], temperature_2m = [], cloud_cover = [],
      shortwave_radiation = [], humidity = None, windSpeed = None, windDirection = None,
      pressure = None, precipitation = None, uvIndex = None, visibility = None,
      dewPoint = None, apparentTemperature = None\<rparr>"


section \<open>Arithmetic on finite numbers\<close>

lemma numeral_number [simp]: "(numeral k :: number) = Fin (numeral k)"
proof (induction k)
  case One
  show ?case by (simp add: one_number_def)
next
  case (Bit0 k)
  show ?case
    by (simp only: numeral_Bit0 plus_number_def Bit0 num_add.simps)
next
  case (Bit1 k)
  show ?case
    by (simp only: numeral_Bit1 plus_number_def one_number_def Bit1 num_add.simps)
qed

lemma power_number [simp]: "Fin x ^ n = Fin (x ^ n)"
  by (induction n) (simp_all add: one_number_def times_number_def)

lemmas number_arith [simp] =
  zero_number_def one_number_def plus_number_def uminus_number_def minus_number_def
  times_number_def divide_number_def less_number_def less_eq_number_def

lemma num_nan_right [simp]:
  "num_add a NaN = NaN" "num_mul a NaN = NaN" "num_div a NaN = NaN"
  "Math_max a NaN = NaN" "Math_min a NaN = NaN" "num_lt a NaN = False" "num_le a NaN = False"
  by (cases a; simp)+

lemma num_le_not_lt: "num_le b a \<Longrightarrow> \<not> num_lt a b"
  by (cases a; cases b) simp_all


lemma nonfinite_closure [simp]:
  "\<not> isFinite b \<Longrightarrow> isFinite (num_add a b) = False"
  "\<not> isFinite a \<Longrightarrow> isFinite (num_add a b) = False"
  "\<not> isFinite a \<Longrightarrow> isFinite (num_mul a (Fin c)) = False"
  "\<not> isFinite a \<Longrightarrow> isFinite (num_div a (Fin c)) = False"
  by (cases a; cases b; simp)+

lemma trig_nonfinite [simp]:
  "\<not> isFinite a \<Longrightarrow> Math_cos a = NaN"
  "\<not> isFinite a \<Longrightarrow> Math_sin a = NaN"
  by (cases a; simp)+


lemma arcsin_sin_unit: "0 \<le> x \<Longrightarrow> x \<le> 1 \<Longrightarrow> arcsin (sin x) = x"
  using pi_ge_two by (intro arcsin_sin) linarith+

lemma arcsin_cos_unit:
  assumes "0 \<le> x" "x \<le> 1"
  shows "arcsin (cos x) = pi / 2 - x"
proof -
  have "arcsin (sin (pi / 2 - x)) = pi / 2 - x"
    using assms pi_ge_two by (intro arcsin_sin) linarith+
  then show ?thesis
    by (simp add: cos_sin_eq [of x])
qed

section \<open>The forecast as a map over the time array\<close>

lemma generateSolarForecast_eq:
  "generateSolarForecast parseFloat newDate location historicalData w =
     Inr (map (\<lambda>i. forecastCallback newDate (parseFloat (latitude location))
                 (parseFloat (longitude location)) 0.85 (- 0.004) w
                 (WeatherForecastData.time w ! i) i)
            [0 ..< length (WeatherForecastData.time w)])"
  unfolding generateSolarForecast_def Let_def
  by (auto intro!: nth_equalityI)

section \<open>Degenerate series\<close>

text \<open>
  Claim C8.  The analyzer functions answer a series that is too short with their
  fallbacks: with fewer than two samples (the code counts the temperature channel, to
  which all channels are index-aligned) every trend slope is 0, and on the empty series
  the forecast quality is exactly 0.5.
\<close>

theorem trend_quality_fallbacks:
  "(length (temperature_2m fd) < 2 \<longrightarrow>
      analyzeWeatherTrends fd =
        \<lparr>tempTrend = 0, cloudCoverTrend = 0, windSpeedTrend = 0, pressureTrend = 0,
         humidityTrend = 0\<rparr>) \<and>
   (length (temperature_2m fd) = 0 \<longrightarrow> calculateForecastQuality fd = 0.5)"
  by (simp add: analyzeWeatherTrends_def calculateForecastQuality_def)

theorem trend_quality_fallbacks_witness:
  "length (temperature_2m emptySeries) < 2 \<and>
   analyzeWeatherTrends emptySeries =
     \<lparr>tempTrend = 0, cloudCoverTrend = 0, windSpeedTrend = 0, pressureTrend = 0,
      humidityTrend = 0\<rparr> \<and>
   length (temperature_2m emptySeries) = 0 \<and>
   calculateForecastQuality emptySeries = 0.5"
  using trend_quality_fallbacks [of emptySeries] by (simp add: emptySeries_def)

section \<open>Shape of the forecast\<close>

text \<open>
  Claim C9.  For every weather series, \<open>generateSolarForecast\<close> returns a sequence of
  forecast points that is as long as the input time array, in the same order: the point
  at each position carries the time of the input sample at that position.
\<close>

theorem forecast_length_order:
  "\<exists>fs. generateSolarForecast parseFloat newDate location historicalData w = Inr fs \<and>
     length fs = length (WeatherForecastData.time w) \<and>
     (\<forall>i < length (WeatherForecastData.time w).
        ForecastPoint.time (fs ! i) = WeatherForecastData.time w ! i)"
  by (simp add: generateSolarForecast_eq forecastCallback_def Let_def)

theorem forecast_length_order_witness:
  "\<exists>fs. generateSolarForecast parseFloat_example newDate_example
          \<lparr>latitude = ''90'', longitude = ''0''\<rparr> [] noonSeries = Inr fs \<and>
     length fs = 1 \<and> ForecastPoint.time (fs ! 0) = ''2024-01-01T12:00:00Z''"
proof -
  obtain fs where
    fs: "generateSolarForecast parseFloat_example newDate_example
           \<lparr>latitude = ''90'', longitude = ''0''\<rparr> [] noonSeries = Inr fs"
    and len: "length fs = length (WeatherForecastData.time noonSeries)"
    and nth: "\<forall>i < length (WeatherForecastData.time noonSeries).
                ForecastPoint.time (fs ! i) = WeatherForecastData.time noonSeries ! i"
    using forecast_length_order
      [of parseFloat_example newDate_example "\<lparr>latitude = ''90'', longitude = ''0''\<rparr>" "[]"
        noonSeries]
    by blast
  have "length fs = 1"
    using len by (simp add: noonSeries_def)
  moreover have "ForecastPoint.time (fs ! 0) = ''2024-01-01T12:00:00Z''"
    using nth by (simp add: noonSeries_def)
  ultimately show ?thesis
    using fs by blast
qed

lemma forecast_nth:
  assumes "generateSolarForecast parseFloat newDate location historicalData w = Inr fs"
    and "i < length (WeatherForecastData.time w)"
  shows "fs ! i = forecastCallback newDate (parseFloat (latitude location))
                 (parseFloat (longitude location)) 0.85 (- 0.004) w
                 (WeatherForecastData.time w ! i) i"
  using assms by (auto simp add: generateSolarForecast_eq)

section \<open>Solar elevation of the examples\<close>

lemma elevation_north_pole:
  "sampleElevation parseFloat_example newDate_example \<lparr>latitude = ''90'', longitude = ''0''\<rparr>
     noonSeries 0 = Fin (- (200901 / 500000) * 180 / pi)"
  by (simp add: sampleElevation_def parseFloat_example_def newDate_example_def noonSeries_def
      calculateSolarPosition_def Let_def Math_PI_def arcsin_minus arcsin_sin_unit)

lemma elevation_solar_noon:
  "sampleElevation parseFloat_example newDate_example
     \<lparr>latitude = ''0'', longitude = ''2.264126515''\<rparr> noonSeries 0 =
   Fin ((pi / 2 - 200901 / 500000) * 180 / pi)"
  by (simp add: sampleElevation_def parseFloat_example_def newDate_example_def noonSeries_def
      calculateSolarPosition_def Let_def Math_PI_def arcsin_cos_unit)

lemma solar_noon_high: "30 \<le> (pi / 2 - 200901 / 500000) * 180 / pi"
  using pi_ge_two by (simp add: field_simps)

lemma aerosol_solar_noon:
  "estimateAerosolFactor (Fin ((pi / 2 - 200901 / 500000) * 180 / pi)) = Fin 0.95"
  using solar_noon_high by (simp add: estimateAerosolFactor_def)


section \<open>Night and day\<close>

text \<open>
  Claim C3.  For a sample whose computed solar elevation is strictly negative the
  orchestrator returns the point with predicted irradiance 0 and confidence 0.95, whatever
  the weather channels hold: the cloud, aerosol and temperature steps have no part in it.
\<close>

theorem night_floor:
  assumes "generateSolarForecast parseFloat newDate location historicalData w = Inr fs"
    and "i < length (WeatherForecastData.time w)"
    and "sampleElevation parseFloat newDate location w i < 0"
  shows "fs ! i =
    \<lparr>ForecastPoint.time = WeatherForecastData.time w ! i, predictedIrradiance = 0,
     confidence = 0.95\<rparr>"
  using assms(3) unfolding forecast_nth [OF assms(1,2)]
  by (simp add: forecastCallback_def sampleElevation_def Let_def)

theorem night_floor_witness:
  "\<exists>fs. generateSolarForecast parseFloat_example newDate_example
          \<lparr>latitude = ''90'', longitude = ''0''\<rparr> [] noonSeries = Inr fs \<and>
     0 < length (WeatherForecastData.time noonSeries) \<and>
     sampleElevation parseFloat_example newDate_example \<lparr>latitude = ''90'', longitude = ''0''\<rparr>
       noonSeries 0 < 0 \<and>
     fs ! 0 =
       \<lparr>ForecastPoint.time = ''2024-01-01T12:00:00Z'', predictedIrradiance = 0,
        confidence = 0.95\<rparr>"
proof -
  obtain fs where fs: "generateSolarForecast parseFloat_example newDate_example
          \<lparr>latitude = ''90'', longitude = ''0''\<rparr> [] noonSeries = Inr fs"
    by (simp add: generateSolarForecast_eq)
  have len: "0 < length (WeatherForecastData.time noonSeries)"
    by (simp add: noonSeries_def)
  have night: "sampleElevation parseFloat_example newDate_example
      \<lparr>latitude = ''90'', longitude = ''0''\<rparr> noonSeries 0 < 0"
    by (simp add: elevation_north_pole)
  have "fs ! 0 =
       \<lparr>ForecastPoint.time = ''2024-01-01T12:00:00Z'', predictedIrradiance = 0,
        confidence = 0.95\<rparr>"
    using night_floor [OF fs len night] by (simp add: noonSeries_def)
  then show ?thesis
    using fs len night by blast
qed

lemma temp_loss_factor:
  "num_add (Fin 1) (num_mul (Fin (- c)) x) = num_add (Fin 1) (num_neg (num_mul (Fin c) x))"
  by (cases x) simp_all

text \<open>
  A temperature sample of 0 is falsy and is replaced by the default 25.  The three steps
  that read the temperature give the same value at 0 and at 25, so the replacement does
  not show in the forecast point.
\<close>

lemma zero_temperature_default:
  "calculateCloudImpact c (Fin 0) = calculateCloudImpact c (Fin 25)"
  "Math_max 0 (Fin 0 - 25) = Math_max 0 (Fin 25 - 25)"
  "predictConfidence c e (Fin 0) i w = predictConfidence c e (Fin 25) i w"
  by (simp_all add: calculateCloudImpact_def predictConfidence_def Let_def)

text \<open>
  Claim C4.  For a daytime sample (computed elevation at least 0) the predicted irradiance
  is \<open>max(0, max(0, radiation * cloudImpact * aerosolFactor) * 0.85 * (1 - 0.004 *
  max(0, temperature - 25)))\<close>, on the observed shortwave radiation of the sample.  The
  point is given in full: neither field mentions the clear-sky irradiance or the
  decomposition.
\<close>

theorem daytime_irradiance:
  assumes "generateSolarForecast parseFloat newDate location historicalData w = Inr fs"
    and "i < length (WeatherForecastData.time w)"
    and "sampleElevation parseFloat newDate location w i \<ge> 0"
  shows "fs ! i =
    \<lparr>ForecastPoint.time = WeatherForecastData.time w ! i,
     predictedIrradiance =
       Math_max 0
         (Math_max 0
            (sampleRadiation w i *
             calculateCloudImpact (sampleCloudCover w i) (sampleTemperature w i) *
             estimateAerosolFactor (sampleElevation parseFloat newDate location w i)) *
          0.85 * (1 - 0.004 * Math_max 0 (sampleTemperature w i - 25))),
     confidence =
       predictConfidence (sampleCloudCover w i)
         (sampleElevation parseFloat newDate location w i) (sampleTemperature w i) i w\<rparr>"
proof -
  have day: "\<not> num_lt (sampleElevation parseFloat newDate location w i) (Fin 0)"
    using assms(3) by (simp add: num_le_not_lt)
  show ?thesis
    unfolding forecast_nth [OF assms(1,2)] using day
    by (simp add: forecastCallback_def sampleElevation_def sampleTemperature_def
        sampleCloudCover_def sampleRadiation_def Let_def temp_loss_factor)
qed

theorem daytime_irradiance_witness:
  "\<exists>fs. generateSolarForecast parseFloat_example newDate_example
          \<lparr>latitude = ''0'', longitude = ''2.264126515''\<rparr> [] noonSeries = Inr fs \<and>
     0 < length (WeatherForecastData.time noonSeries) \<and>
     sampleElevation parseFloat_example newDate_example
       \<lparr>latitude = ''0'', longitude = ''2.264126515''\<rparr> noonSeries 0 \<ge> 0 \<and>
     predictedIrradiance (fs ! 0) = Fin 613.7"
proof -
  obtain fs where fs: "generateSolarForecast parseFloat_example newDate_example
          \<lparr>latitude = ''0'', longitude = ''2.264126515''\<rparr> [] noonSeries = Inr fs"
    by (simp add: generateSolarForecast_eq)
  have len: "0 < length (WeatherForecastData.time noonSeries)"
    by (simp add: noonSeries_def)
  have day: "sampleElevation parseFloat_example newDate_example
      \<lparr>latitude = ''0'', longitude = ''2.264126515''\<rparr> noonSeries 0 \<ge> 0"
    using solar_noon_high by (simp add: elevation_solar_noon)
  have "predictedIrradiance (fs ! 0) = Fin 613.7"
    using daytime_irradiance [OF fs len day]
    unfolding elevation_solar_noon aerosol_solar_noon
    by (simp add: noonSeries_def sampleRadiation_def sampleCloudCover_def
        sampleTemperature_def nth_opt_def calculateCloudImpact_def)
  then show ?thesis
    using fs len day by blast
qed

section \<open>Confidence\<close>






section \<open>Bounds of the forecast\<close>








section \<open>Coordinates that are not finite\<close>






section \<open>Cloud attenuation\<close>

text \<open>
  Below cloud cover 10 the factor is the constant 0.95, and from 10 up to 100 it does not
  increase.
\<close>

lemma cloud_impact_formula:
  assumes "10 \<le> c" "c \<le> 90"
  shows "calculateCloudImpact (Fin c) (Fin t) =
    Fin (max 0.1 (1 - (c / 100) powr 1.3 * max 0.8 (min 1 ((t + 5) / 45)) * 0.85))"
  using assms by (simp add: calculateCloudImpact_def Let_def)

lemma cloud_impact_above_overcast:
  assumes "10 \<le> c" "c \<le> 90"
  shows "(0.15::real) \<le> max 0.1 (1 - (c / 100) powr 1.3 * max 0.8 (min 1 ((t + 5) / 45)) * 0.85)"
proof -
  define tf :: real where "tf = max 0.8 (min 1 ((t + 5) / 45))"
  have tf: "0 \<le> tf" "tf \<le> 1"
    by (simp_all add: tf_def)
  have "(c / 100) powr 1.3 \<le> c / 100"
    using assms by (intro powr_le_one_le) simp_all
  then have "(c / 100) powr 1.3 \<le> 0.9"
    using assms by simp
  then have "(c / 100) powr 1.3 * tf \<le> 0.9 * 1"
    using tf by (intro mult_mono) simp_all
  then have "0.15 \<le> 1 - (c / 100) powr 1.3 * tf * 0.85"
    by (simp add: ac_simps)
  then show ?thesis
    unfolding tf_def by simp
qed

lemma cloud_impact_monotone_from_ten:
  assumes "10 \<le> c1" "c1 \<le> c2" "c2 \<le> 100"
  shows "calculateCloudImpact (Fin c2) (Fin t) \<le> calculateCloudImpact (Fin c1) (Fin t)"
proof (cases "c2 \<le> 90")
  case True
  define tf :: real where "tf = max 0.8 (min 1 ((t + 5) / 45))"
  have tf: "0 \<le> tf"
    by (simp add: tf_def)
  have "(c1 / 100) powr 1.3 \<le> (c2 / 100) powr 1.3"
    using assms by (intro powr_mono2) simp_all
  then have "(c1 / 100) powr 1.3 * tf * 0.85 \<le> (c2 / 100) powr 1.3 * tf * 0.85"
    using tf by (intro mult_right_mono) simp_all
  then have "max 0.1 (1 - (c2 / 100) powr 1.3 * tf * 0.85) \<le>
      max 0.1 (1 - (c1 / 100) powr 1.3 * tf * 0.85)"
    by (intro max.mono) simp_all
  then show ?thesis
    using assms True by (simp add: cloud_impact_formula tf_def)
next
  case False
  then have over: "calculateCloudImpact (Fin c2) (Fin t) = Fin 0.15"
    using assms by (simp add: calculateCloudImpact_def)
  show ?thesis
  proof (cases "c1 \<le> 90")
    case True
    with assms have "calculateCloudImpact (Fin c1) (Fin t) =
        Fin (max 0.1 (1 - (c1 / 100) powr 1.3 * max 0.8 (min 1 ((t + 5) / 45)) * 0.85))"
      by (intro cloud_impact_formula)
    then show ?thesis
      unfolding over using cloud_impact_above_overcast [OF assms(1) True, of t]
      by (simp only: less_eq_number_def num_le.simps)
  next
    case False
    then show ?thesis
      using assms by (simp add: over calculateCloudImpact_def)
  qed
qed

lemma cloud_impact_below_ten:
  assumes "c < 10"
  shows "calculateCloudImpact (Fin c) (Fin t) = Fin 0.95"
  using assms by (simp add: calculateCloudImpact_def)

lemma opacity_at_ten: "(1 / 10 :: real) powr (13 / 10) < 1 / 17"
proof -
  have "(1 / 10 :: real) powr (13 / 10) \<le> (1 / 10) powr (5 / 4)"
    by (intro powr_mono') simp_all
  also have "(1 / 10 :: real) powr (5 / 4) = (1 / 10) powr (1 + 1 / 4)"
    by simp
  also have "\<dots> = (1 / 10) powr 1 * (1 / 10) powr (1 / 4)"
    by (rule powr_add)
  also have "\<dots> = (1 / 10) * (1 / 10) powr (1 / 4)"
    by simp
  also have "(1 / 10 :: real) powr (1 / 4) < ((29 / 50) ^ 4) powr (1 / 4)"
    by (intro powr_less_mono2) (simp_all add: power4_eq_xxxx)
  also have "((29 / 50 :: real) ^ 4) powr (1 / 4) = 29 / 50"
  proof -
    have "((29 / 50 :: real) ^ 4) powr (1 / 4) = ((29 / 50) powr 4) powr (1 / 4)"
      by simp
    also have "\<dots> = (29 / 50) powr (4 * (1 / 4))"
      by (rule powr_powr)
    finally show ?thesis by simp
  qed
  finally show ?thesis by simp
qed

text \<open>
  Claim C2 fails on the code.  For every temperature the factor at cloud cover 10 is
  larger than the factor at cloud cover 9: below 10 the function returns the constant
  0.95, at 10 the formula gives \<open>1 - 0.1^1.3 * tempFactor * 0.85\<close>, which is above 0.957.
\<close>

theorem cloud_impact_rises_at_ten:
  "calculateCloudImpact 9 (Fin t) < calculateCloudImpact 10 (Fin t)"
proof -
  define tf :: real where "tf = max (4 / 5) (min 1 ((t + 5) / 45))"
  have tf: "0 < tf" "tf \<le> 1"
    by (simp_all add: tf_def)
  have "(1 / 10 :: real) powr (13 / 10) * tf \<le> (1 / 10) powr (13 / 10)"
    using tf by (simp add: mult_left_le)
  then have "(1 / 10 :: real) powr (13 / 10) * tf < 1 / 17"
    using opacity_at_ten by linarith
  then have "19 / 20 < 1 - (1 / 10 :: real) powr (13 / 10) * tf * (17 / 20)"
    by (simp add: ac_simps)
  then show ?thesis
    by (simp add: calculateCloudImpact_def Let_def tf_def less_max_iff_disj)
qed

section \<open>Clear-sky irradiance\<close>

lemma minus_negative_coefficient:
  "num_neg (num_mul (Fin (- c)) x) = num_mul (Fin c) x"
  by (cases x) simp_all

text \<open>
  Claim C6.  \<open>calculateClearSkyIrradiance\<close> computes the clear-sky irradiance of the
  specification: 0 when the elevation is at most 0, and otherwise the floored product
  with the exponent \<open>0.6797 + 0.00639 * airmass\<close>.
\<close>

theorem clear_sky_formula:
  "calculateClearSkyIrradiance elevationDeg zenith = clearSkyGHI_spec elevationDeg zenith"
  by (simp add: calculateClearSkyIrradiance_def clearSkyGHI_spec_def Let_def
      minus_negative_coefficient)

section \<open>Trend analysis\<close>


















end
